theory Spec2Isabelle
  imports Main "HOL-Library.AList"
begin

section \<open>The study-assistant backend (fastapi\_backend.py)\<close>

text \<open>
  The module is a set of HTTP request handlers over one module-level dictionary,
  \<^verbatim>\<open>study_sessions\<close>. Every handler hands its blocking work to a collaborator
  (\<^verbatim>\<open>await asyncio.wait_for(asyncio.to_thread(f, args), timeout)\<close>) and decides
  what to answer from the way that wait ends. The embedding keeps this shape:
  \<^item> a handler is a function from the state to a result and the new state;
  \<^item> the result is \<open>Inl\<close> of the \<^verbatim>\<open>HTTPException\<close> raised, or \<open>Inr\<close> of the
    response returned;
  \<^item> a collaborator is a function, a field of the record \<open>env\<close>, from the arguments
    of the call to the way the wait ends: the value returned, a timeout, or
    an exception with its message;
  \<^item> the state holds the dictionary and, beside it, the list of the offloaded calls
    awaited so far with their arguments, so that what a handler forwards to a
    collaborator can be read off.
  Logging is left out. The collaborators are typed by what the handlers and the
  response models expect of them (strings, lists of dictionaries, integer counts).
  A handler is suspended while it waits, and other requests may be served and may
  write the dictionary meanwhile. The handlers read the dictionary before their
  wait, with one exception: the summary handler reads it again after a timeout.
  For that read the dictionary as it is after the wait is taken from \<open>env\<close>
  (\<open>sessions_after_wait\<close>, applied to the dictionary before the wait); it may be
  any dictionary. The state a handler returns holds what the handler itself did:
  the writes of the requests served during its wait are theirs.
\<close>

subsection \<open>Python strings\<close>

text \<open>
  A Python \<^verbatim>\<open>str\<close> is a sequence of code points and \<^verbatim>\<open>len\<close> counts them, so a
  string is a list of code points here; \<open>lit\<close> turns an ASCII literal into one.
\<close>

type_synonym pystr = "nat list"

type_synonym bytes = "char list"

definition lit :: "string \<Rightarrow> pystr" where
  "lit s = map of_char s"

text \<open>The code points that \<^verbatim>\<open>str.split()\<close> and \<^verbatim>\<open>str.strip()\<close> treat as white space.\<close>

definition is_space :: "nat \<Rightarrow> bool" where
  "is_space c =
     ((9 \<le> c \<and> c \<le> 13) \<or> (28 \<le> c \<and> c \<le> 32) \<or> c = 133 \<or> c = 160 \<or> c = 5760
      \<or> (8192 \<le> c \<and> c \<le> 8202) \<or> c = 8232 \<or> c = 8233 \<or> c = 8239 \<or> c = 8287
      \<or> c = 12288)"

text \<open>\<^verbatim>\<open>s.split()\<close>: the maximal runs of code points that are not white space.\<close>

fun split_ws :: "pystr \<Rightarrow> pystr \<Rightarrow> pystr list" where
  "split_ws w [] = (if w = [] then [] else [w])"
| "split_ws w (c # cs) =
     (if is_space c then (if w = [] then split_ws [] cs else w # split_ws [] cs)
      else split_ws (w @ [c]) cs)"

definition py_split :: "pystr \<Rightarrow> pystr list" where
  "py_split s = split_ws [] s"

definition py_strip :: "pystr \<Rightarrow> pystr" where
  "py_strip s = rev (dropWhile is_space (rev (dropWhile is_space s)))"

definition startswith :: "pystr \<Rightarrow> pystr \<Rightarrow> bool" where
  "startswith s p = (take (length p) s = p)"

definition endswith :: "pystr \<Rightarrow> pystr \<Rightarrow> bool" where
  "endswith s p = (length p \<le> length s \<and> drop (length s - length p) s = p)"

text \<open>
  \<^verbatim>\<open>s.lower()\<close> on the letters A to Z. The handler only asks whether the lowered
  name ends in \<^verbatim>\<open>.pdf\<close>, and no code point outside A to Z lowers to one of these
  four, so the other code points are left as they are.
\<close>

definition py_lower :: "pystr \<Rightarrow> pystr" where
  "py_lower s = map (\<lambda>c. if 65 \<le> c \<and> c \<le> 90 then c + 32 else c) s"

text \<open>\<^verbatim>\<open>str(n)\<close> for an integer: its decimal digits, with a minus sign when negative.\<close>

fun digits :: "nat \<Rightarrow> pystr" where
  "digits n = (if n < 10 then [48 + n] else digits (n div 10) @ [48 + n mod 10])"

declare digits.simps [simp del]

definition str_int :: "int \<Rightarrow> pystr" where
  "str_int i = (if i < 0 then 45 # digits (nat (- i)) else digits (nat i))"

text \<open>The cross mark U+274C with which the completion client starts an error text.\<close>

definition cross_mark :: pystr where
  "cross_mark = [10060]"

subsection \<open>Data\<close>

text \<open>The values found in the dictionaries that the handlers build and return.\<close>

datatype pyval = PStr pystr | PInt int | PBool bool | PList "pyval list"

type_synonym pydict = "(pystr \<times> pyval) list"

text \<open>The \<^verbatim>\<open>UploadFile\<close>: its name (which may be missing) and what \<^verbatim>\<open>read()\<close> gives.\<close>

record upload_file =
  filename :: "pystr option"
  content :: bytes

text \<open>
  The dictionary returned by \<^verbatim>\<open>pdf_processor.extract_text_with_ocr\<close>, with the keys
  the upload handler reads (\<open>text'\<close> is the key \<^verbatim>\<open>text\<close>).
\<close>

record extraction =
  status :: pystr
  message :: pystr
  text' :: pystr
  word_count :: int
  page_count :: int
  methods_used :: "pystr list"

text \<open>
  One entry of \<^verbatim>\<open>study_sessions\<close>; the keys \<^verbatim>\<open>text\<close> and \<^verbatim>\<open>filename\<close> are the
  fields \<open>session_text\<close> and \<open>session_filename\<close>.
\<close>

record session =
  session_text :: pystr
  file_info :: pystr
  processing_result :: extraction
  session_filename :: pystr

datatype http_exception = HTTPException (status_code: nat) (detail: pystr)

text \<open>The response models; \<open>Json\<close> is a plain dictionary returned as it is.\<close>

datatype response =
    ProcessingStatus pystr pystr int int "pystr list"
  | SummaryResponse pystr pystr
  | FlashcardResponse "pydict list" int pystr
  | QuizResponse "pydict list" int pystr
  | ResearchPapersResponse "pydict list" int pystr
  | VideosResponse "pydict list" int pystr
  | WebResourcesResponse "pydict list" int pystr
  | AnswerResponse pystr pystr
  | Json pydict

text \<open>
  How \<^verbatim>\<open>await asyncio.wait_for(asyncio.to_thread(f, args), timeout)\<close> ends: with the
  value of \<^verbatim>\<open>f(args)\<close>, with \<^verbatim>\<open>asyncio.TimeoutError\<close>, or with another exception
  \<^verbatim>\<open>e\<close>, of which \<^verbatim>\<open>str(e)\<close> is kept.
\<close>

datatype 'a outcome = Returned 'a | TimedOut | Raised pystr

text \<open>An offloaded call, with the arguments passed to it.\<close>

datatype call =
    Extract_text_with_ocr pystr
  | Generate_summary pystr
  | Generate_flashcards_structured pystr int
  | Generate_quiz_structured pystr int
  | Find_papers pystr int
  | Extract_smart_keywords_and_topic pystr
  | Find_videos "pystr list" pystr int
  | Find_resources "pystr list" pystr int
  | Chat_completion pystr nat

text \<open>
  What the handlers take from outside the module: the collaborators, the creation
  of the temporary file (\<open>Inl\<close> the message of the exception, \<open>Inr\<close> the path),
  the rendering \<^verbatim>\<open>{file_size/1024/1024:.2f}\<close> of a size (floating point, not
  interpreted), \<^verbatim>\<open>str(e)\<close> of an \<^verbatim>\<open>HTTPException\<close> (the framework's), the two
  facts the health check reads, and what the requests served during a wait make
  of \<^verbatim>\<open>study_sessions\<close> (the identity when none of them writes).
\<close>

record env =
  named_temporary_file :: "bytes \<Rightarrow> pystr + pystr"
  pdf_processor :: "pystr \<Rightarrow> extraction outcome"
  summary_agent :: "pystr \<Rightarrow> pystr outcome"
  flashcard_agent :: "pystr \<Rightarrow> int \<Rightarrow> pydict list outcome"
  quiz_agent :: "pystr \<Rightarrow> int \<Rightarrow> pydict list outcome"
  find_papers :: "pystr \<Rightarrow> int \<Rightarrow> pydict list outcome"
  extract_smart_keywords_and_topic :: "pystr \<Rightarrow> (pystr \<times> pystr list \<times> pystr list) outcome"
  find_videos :: "pystr list \<Rightarrow> pystr \<Rightarrow> int \<Rightarrow> pydict list outcome"
  find_resources :: "pystr list \<Rightarrow> pystr \<Rightarrow> int \<Rightarrow> pydict list outcome"
  chat_completion :: "pystr \<Rightarrow> nat \<Rightarrow> pystr outcome"
  format_mb :: "nat \<Rightarrow> pystr"
  str_http_exception :: "nat \<Rightarrow> pystr \<Rightarrow> pystr"
  agents_initialized :: bool
  openai_key_configured :: bool
  sessions_after_wait :: "(pystr \<times> session) list \<Rightarrow> (pystr \<times> session) list"

text \<open>
  The state: \<^verbatim>\<open>study_sessions\<close>, a dictionary in insertion order, and the offloaded
  calls awaited so far.
\<close>

record state =
  study_sessions :: "(pystr \<times> session) list"
  offloaded :: "call list"

type_synonym result = "(http_exception + response) \<times> state"

definition offload :: "call \<Rightarrow> state \<Rightarrow> state" where
  "offload c s = s\<lparr>offloaded := offloaded s @ [c]\<rparr>"

definition success :: pystr where
  "success = lit ''success''"

definition no_document :: http_exception where
  "no_document = HTTPException 404 (lit ''No document found. Please upload a PDF first.'')"

subsection \<open>The fallback literals\<close>

text \<open>
  The summary returned on a timeout: a fixed text around the number of words of the
  stored text (\<^verbatim>\<open>len(text.split())\<close>) and the stored page count.
\<close>

definition basic_summary :: "pystr \<Rightarrow> int \<Rightarrow> pystr" where
  "basic_summary text pages =
     lit ''Document Summary:'' @ [10, 10] @ lit ''This document contains ''
     @ str_int (int (length (py_split text))) @ lit '' words across '' @ str_int pages
     @ lit '' pages. The content appears to cover academic or professional material that requires detailed study.''
     @ [10, 10]
     @ lit ''Key points may include important concepts, methodologies, and conclusions relevant to the subject matter. For a more detailed analysis, please try the summary generation again or use the Q&A feature to ask specific questions about the content.''"

definition flashcard_general :: pydict where
  "flashcard_general =
     [(lit ''question'', PStr (lit ''What is the main topic of this document?'')),
      (lit ''answer'', PStr (lit ''This document covers academic or professional content that requires study and analysis.'')),
      (lit ''category'', PStr (lit ''General'')),
      (lit ''difficulty'', PStr (lit ''Easy''))]"

definition flashcard_study_tips :: pydict where
  "flashcard_study_tips =
     [(lit ''question'', PStr (lit ''What should you focus on when studying this material?'')),
      (lit ''answer'', PStr (lit ''Focus on key concepts, methodologies, and important conclusions presented in the content.'')),
      (lit ''category'', PStr (lit ''Study Tips'')),
      (lit ''difficulty'', PStr (lit ''Medium''))]"

text \<open>\<^verbatim>\<open>basic_flashcards\<close> of the branch \<^verbatim>\<open>if not flashcards\<close>, and of the timeout branch.\<close>

definition basic_flashcards_empty :: "pydict list" where
  "basic_flashcards_empty = [flashcard_general, flashcard_study_tips]"

definition basic_flashcards_timeout :: "pydict list" where
  "basic_flashcards_timeout = [flashcard_general]"

definition quiz_document_type :: pydict where
  "quiz_document_type =
     [(lit ''question'', PStr (lit ''What type of document is this?'')),
      (lit ''options'', PList [PStr (lit ''Academic/Professional document''), PStr (lit ''Fiction novel''),
                               PStr (lit ''Recipe book''), PStr (lit ''Comic book'')]),
      (lit ''correct_answer'', PInt 0),
      (lit ''explanation'', PStr (lit ''Based on the content analysis, this appears to be academic or professional material.'')),
      (lit ''difficulty'', PStr (lit ''Easy''))]"

definition quiz_best_approach :: pydict where
  "quiz_best_approach =
     [(lit ''question'', PStr (lit ''What is the best approach to studying this material?'')),
      (lit ''options'', PList [PStr (lit ''Skim through quickly''), PStr (lit ''Focus on key concepts and take notes''),
                               PStr (lit ''Memorize every word''), PStr (lit ''Ignore the details'')]),
      (lit ''correct_answer'', PInt 1),
      (lit ''explanation'', PStr (lit ''Effective studying involves focusing on key concepts and taking detailed notes for better retention.'')),
      (lit ''difficulty'', PStr (lit ''Medium''))]"

text \<open>\<^verbatim>\<open>basic_quiz\<close> of the branch \<^verbatim>\<open>if not quiz\<close>, and of the timeout branch.\<close>

definition basic_quiz_empty :: "pydict list" where
  "basic_quiz_empty = [quiz_document_type, quiz_best_approach]"

definition basic_quiz_timeout :: "pydict list" where
  "basic_quiz_timeout = [quiz_document_type]"

subsection \<open>The handlers\<close>

definition root :: "state \<Rightarrow> result" where
  "root s =
     (Inr (Json [(lit ''message'', PStr (lit ''AI Study Assistant API'')),
                 (lit ''version'', PStr (lit ''1.0.0'')),
                 (lit ''status'', PStr (lit ''running''))]), s)"

definition health_check :: "env \<Rightarrow> state \<Rightarrow> result" where
  "health_check e s =
     (if \<not> agents_initialized e
      then (Inl (HTTPException 503 (lit ''Agents not properly initialized'')), s)
      else (Inr (Json [(lit ''status'', PStr (lit ''healthy'')),
                       (lit ''agents_initialized'', PBool (agents_initialized e)),
                       (lit ''openai_key_configured'', PBool (openai_key_configured e)),
                       (lit ''active_sessions'', PInt (int (length (study_sessions s))))]), s))"

text \<open>
  The upload. The checks come in the order of the source; the session is stored
  under the constant key \<^verbatim>\<open>default\<close>, after the two checks on the extraction. The
  timeout of the extraction is re-raised as it is (\<^verbatim>\<open>except HTTPException: raise\<close>),
  any other exception becomes a 500. Removing the temporary file touches no state
  of the module.
\<close>

definition upload_pdf :: "env \<Rightarrow> upload_file \<Rightarrow> state \<Rightarrow> result" where
  "upload_pdf e file s =
     (case filename file of
        None \<Rightarrow> (Inl (HTTPException 400 (lit ''No filename provided'')), s)
      | Some name \<Rightarrow>
          if name = [] then (Inl (HTTPException 400 (lit ''No filename provided'')), s)
          else if \<not> endswith (py_lower name) (lit ''.pdf'')
          then (Inl (HTTPException 400 (lit ''Only PDF files are allowed'')), s)
          else
            let file_size = length (content file) in
            if file_size > 50 * 1024 * 1024
            then (Inl (HTTPException 400 (lit ''File too large. Maximum size is 50MB'')), s)
            else if file_size = 0
            then (Inl (HTTPException 400 (lit ''Empty file uploaded'')), s)
            else
              (case named_temporary_file e (content file) of
                 Inl err \<Rightarrow> (Inl (HTTPException 500 (lit ''Processing failed: '' @ err)), s)
               | Inr temp_file_path \<Rightarrow>
                   let s1 = offload (Extract_text_with_ocr temp_file_path) s in
                   (case pdf_processor e temp_file_path of
                      TimedOut \<Rightarrow>
                        (Inl (HTTPException 408
                           (lit ''PDF processing timeout. File may be too complex or large.'')), s1)
                    | Raised err \<Rightarrow>
                        (Inl (HTTPException 500 (lit ''Processing failed: '' @ err)), s1)
                    | Returned result \<Rightarrow>
                        if status result = lit ''error''
                        then (Inl (HTTPException 400 (message result)), s1)
                        else if word_count result < 10
                        then (Inl (HTTPException 422
                           (lit ''Very little text could be extracted. PDF may be image-based, protected, or corrupted.'')), s1)
                        else
                          let session_id = lit ''default'';
                              s2 = s1\<lparr>study_sessions :=
                                     AList.update session_id
                                       \<lparr>session_text = text' result,
                                        file_info = lit ''File: '' @ name @ lit '' ('' @ format_mb e file_size @ lit '' MB)'',
                                        processing_result = result,
                                        session_filename = name\<rparr>
                                       (study_sessions s1)\<rparr>
                          in (Inr (ProcessingStatus (status result) (message result) (word_count result)
                                     (page_count result) (methods_used result)), s2))))"

text \<open>
  The summary. An \<^verbatim>\<open>HTTPException\<close> raised inside the \<^verbatim>\<open>try\<close> (an answer that starts
  with the cross mark) is caught by \<^verbatim>\<open>except Exception\<close> and wrapped again. On a
  timeout the handler reads \<^verbatim>\<open>study_sessions[session_id]\<close> once more, now from the
  dictionary as it is after the wait; the inner \<^verbatim>\<open>except\<close> answers 408 when that
  read fails, which it does when the session was cleared during the wait.
\<close>

definition summary_timeout :: http_exception where
  "summary_timeout = HTTPException 408
     (lit ''Summary generation timeout. Please try again with a smaller document.'')"

definition generate_summary :: "env \<Rightarrow> pystr \<Rightarrow> state \<Rightarrow> result" where
  "generate_summary e session_id s =
     (case map_of (study_sessions s) session_id of
        None \<Rightarrow> (Inl no_document, s)
      | Some sess \<Rightarrow>
          let text = session_text sess;
              max_chars = 8000;
              text = (if length text > max_chars then take max_chars text @ lit ''...'' else text);
              s1 = offload (Generate_summary text) s
          in (case summary_agent e text of
                Returned summary \<Rightarrow>
                  if startswith summary cross_mark
                  then (Inl (HTTPException 500
                          (lit ''Summary generation failed: '' @ str_http_exception e 500 summary)), s1)
                  else (Inr (SummaryResponse summary success), s1)
              | TimedOut \<Rightarrow>
                  (case map_of (sessions_after_wait e (study_sessions s1)) session_id of
                     Some sess1 \<Rightarrow>
                       (Inr (SummaryResponse
                               (basic_summary (session_text sess1) (page_count (processing_result sess1)))
                               success), s1)
                   | None \<Rightarrow> (Inl summary_timeout, s1))
              | Raised err \<Rightarrow>
                  (Inl (HTTPException 500 (lit ''Summary generation failed: '' @ err)), s1)))"

definition generate_flashcards :: "env \<Rightarrow> pystr \<Rightarrow> int \<Rightarrow> state \<Rightarrow> result" where
  "generate_flashcards e session_id num_cards s =
     (case map_of (study_sessions s) session_id of
        None \<Rightarrow> (Inl no_document, s)
      | Some sess \<Rightarrow>
          let num_cards = (if num_cards < 1 \<or> num_cards > 20 then min (max num_cards 1) 20 else num_cards);
              text = session_text sess;
              max_chars = 6000;
              text = (if length text > max_chars then take max_chars text @ lit ''...'' else text);
              s1 = offload (Generate_flashcards_structured text num_cards) s
          in (case flashcard_agent e text num_cards of
                Returned flashcards \<Rightarrow>
                  if flashcards = []
                  then (Inr (FlashcardResponse basic_flashcards_empty
                               (int (length basic_flashcards_empty)) success), s1)
                  else (Inr (FlashcardResponse flashcards (int (length flashcards)) success), s1)
              | TimedOut \<Rightarrow>
                  (Inr (FlashcardResponse basic_flashcards_timeout
                          (int (length basic_flashcards_timeout)) success), s1)
              | Raised err \<Rightarrow>
                  (Inl (HTTPException 500 (lit ''Flashcard generation failed: '' @ err)), s1)))"

definition generate_quiz :: "env \<Rightarrow> pystr \<Rightarrow> int \<Rightarrow> state \<Rightarrow> result" where
  "generate_quiz e session_id num_questions s =
     (case map_of (study_sessions s) session_id of
        None \<Rightarrow> (Inl no_document, s)
      | Some sess \<Rightarrow>
          let num_questions = (if num_questions < 1 \<or> num_questions > 15
                               then min (max num_questions 1) 15 else num_questions);
              text = session_text sess;
              max_chars = 6000;
              text = (if length text > max_chars then take max_chars text @ lit ''...'' else text);
              s1 = offload (Generate_quiz_structured text num_questions) s
          in (case quiz_agent e text num_questions of
                Returned quiz \<Rightarrow>
                  if quiz = []
                  then (Inr (QuizResponse basic_quiz_empty (int (length basic_quiz_empty)) success), s1)
                  else (Inr (QuizResponse quiz (int (length quiz)) success), s1)
              | TimedOut \<Rightarrow>
                  (Inr (QuizResponse basic_quiz_timeout (int (length basic_quiz_timeout)) success), s1)
              | Raised err \<Rightarrow>
                  (Inl (HTTPException 500 (lit ''Quiz generation failed: '' @ err)), s1)))"

text \<open>
  The discovery handlers cap the requested number from above only, and answer an
  empty list both on a timeout and on any other exception.
\<close>

definition discover_research :: "env \<Rightarrow> pystr \<Rightarrow> int \<Rightarrow> state \<Rightarrow> result" where
  "discover_research e session_id max_papers s =
     (case map_of (study_sessions s) session_id of
        None \<Rightarrow> (Inl no_document, s)
      | Some sess \<Rightarrow>
          let max_papers = (if max_papers > 15 then 15 else max_papers);
              text = session_text sess;
              max_chars = 4000;
              text = (if length text > max_chars then take max_chars text @ lit ''...'' else text);
              s1 = offload (Find_papers text max_papers) s
          in (case find_papers e text max_papers of
                Returned papers \<Rightarrow>
                  (Inr (ResearchPapersResponse papers (int (length papers)) success), s1)
              | TimedOut \<Rightarrow> (Inr (ResearchPapersResponse [] 0 success), s1)
              | Raised err \<Rightarrow> (Inr (ResearchPapersResponse [] 0 success), s1)))"

text \<open>
  Videos and web resources await two offloaded calls in a row: the keyword
  extraction on the truncated text, then the search with its keywords and topic.
\<close>

definition discover_videos :: "env \<Rightarrow> pystr \<Rightarrow> int \<Rightarrow> state \<Rightarrow> result" where
  "discover_videos e session_id max_videos s =
     (case map_of (study_sessions s) session_id of
        None \<Rightarrow> (Inl no_document, s)
      | Some sess \<Rightarrow>
          let max_videos = (if max_videos > 12 then 12 else max_videos);
              text = session_text sess;
              max_chars = 3000;
              text = (if length text > max_chars then take max_chars text @ lit ''...'' else text);
              s1 = offload (Extract_smart_keywords_and_topic text) s
          in (case extract_smart_keywords_and_topic e text of
                Returned (topic, research_keywords, all_keywords) \<Rightarrow>
                  let s2 = offload (Find_videos research_keywords topic max_videos) s1
                  in (case find_videos e research_keywords topic max_videos of
                        Returned videos \<Rightarrow>
                          (Inr (VideosResponse videos (int (length videos)) success), s2)
                      | TimedOut \<Rightarrow> (Inr (VideosResponse [] 0 success), s2)
                      | Raised err \<Rightarrow> (Inr (VideosResponse [] 0 success), s2))
              | TimedOut \<Rightarrow> (Inr (VideosResponse [] 0 success), s1)
              | Raised err \<Rightarrow> (Inr (VideosResponse [] 0 success), s1)))"

definition discover_resources :: "env \<Rightarrow> pystr \<Rightarrow> int \<Rightarrow> state \<Rightarrow> result" where
  "discover_resources e session_id max_resources s =
     (case map_of (study_sessions s) session_id of
        None \<Rightarrow> (Inl no_document, s)
      | Some sess \<Rightarrow>
          let max_resources = (if max_resources > 15 then 15 else max_resources);
              text = session_text sess;
              max_chars = 3000;
              text = (if length text > max_chars then take max_chars text @ lit ''...'' else text);
              s1 = offload (Extract_smart_keywords_and_topic text) s
          in (case extract_smart_keywords_and_topic e text of
                Returned (topic, research_keywords, all_keywords) \<Rightarrow>
                  let s2 = offload (Find_resources research_keywords topic max_resources) s1
                  in (case find_resources e research_keywords topic max_resources of
                        Returned resources \<Rightarrow>
                          (Inr (WebResourcesResponse resources (int (length resources)) success), s2)
                      | TimedOut \<Rightarrow> (Inr (WebResourcesResponse [] 0 success), s2)
                      | Raised err \<Rightarrow> (Inr (WebResourcesResponse [] 0 success), s2))
              | TimedOut \<Rightarrow> (Inr (WebResourcesResponse [] 0 success), s1)
              | Raised err \<Rightarrow> (Inr (WebResourcesResponse [] 0 success), s1)))"

text \<open>
  The question handler takes the document text from the request, not from the
  session. The prompt is the f-string of the source around the cut text and the
  question.
\<close>

record question_request =
  question :: pystr
  document_text :: pystr

definition prompt_head :: pystr where
  "prompt_head =
     lit ''Based on the following document content, please answer the question comprehensively and accurately.''
     @ [10, 10] @ lit ''Document Content:'' @ [10]"

definition prompt_question :: pystr where
  "prompt_question = [10, 10] @ lit ''Question: ''"

definition prompt_instructions :: pystr where
  "prompt_instructions =
     [10, 10] @ lit ''Instructions:'' @ [10]
     @ lit ''- Provide a detailed, accurate answer based on the document'' @ [10]
     @ lit ''- If the information isn'' @ [39] @ lit ''t in the document, say so clearly'' @ [10]
     @ lit ''- Use specific examples from the document when possible'' @ [10]
     @ lit ''- Keep the answer well-structured and easy to understand''"

definition ask_question :: "env \<Rightarrow> question_request \<Rightarrow> state \<Rightarrow> result" where
  "ask_question e request s =
     (if py_strip (question request) = []
      then (Inl (HTTPException 400 (lit ''Question cannot be empty'')), s)
      else if py_strip (document_text request) = []
      then (Inl (HTTPException 400 (lit ''No document text provided'')), s)
      else
        let max_chars = 6000;
            text_content = take max_chars (document_text request);
            text_content = (if length (document_text request) > max_chars
                            then text_content @ lit ''...'' else text_content);
            prompt = prompt_head @ text_content @ prompt_question @ question request
                     @ prompt_instructions;
            s1 = offload (Chat_completion prompt 800) s
        in (case chat_completion e prompt 800 of
              Returned response \<Rightarrow>
                if startswith response cross_mark
                then (Inl (HTTPException 500
                        (lit ''Question answering failed: '' @ str_http_exception e 500 response)), s1)
                else (Inr (AnswerResponse response success), s1)
            | TimedOut \<Rightarrow>
                (Inl (HTTPException 408 (lit ''Question answering timeout. Please try again.'')), s1)
            | Raised err \<Rightarrow>
                (Inl (HTTPException 500 (lit ''Question answering failed: '' @ err)), s1)))"

definition clear_session :: "pystr \<Rightarrow> state \<Rightarrow> result" where
  "clear_session session_id s =
     (if map_of (study_sessions s) session_id \<noteq> None
      then (Inr (Json [(lit ''message'', PStr (lit ''Session cleared successfully'')),
                       (lit ''status'', PStr (lit ''success''))]),
            s\<lparr>study_sessions := AList.delete session_id (study_sessions s)\<rparr>)
      else (Inr (Json [(lit ''message'', PStr (lit ''No active session found'')),
                       (lit ''status'', PStr (lit ''info''))]), s))"

definition get_session_info :: "pystr \<Rightarrow> state \<Rightarrow> result" where
  "get_session_info session_id s =
     (case map_of (study_sessions s) session_id of
        None \<Rightarrow> (Inr (Json [(lit ''active'', PBool False),
                             (lit ''message'', PStr (lit ''No active session''))]), s)
      | Some session_data \<Rightarrow>
          (Inr (Json [(lit ''active'', PBool True),
                      (lit ''file_info'', PStr (file_info session_data)),
                      (lit ''filename'', PStr (session_filename session_data)),
                      (lit ''word_count'', PInt (word_count (processing_result session_data))),
                      (lit ''page_count'', PInt (page_count (processing_result session_data))),
                      (lit ''methods_used'',
                         PList (map PStr (methods_used (processing_result session_data))))]), s))"

subsection \<open>Requests\<close>

text \<open>One constructor for each route of the application, with its parameters.\<close>

datatype request =
    Get_root
  | Get_health
  | Post_upload_pdf upload_file
  | Post_generate_summary pystr
  | Post_generate_flashcards pystr int
  | Post_generate_quiz pystr int
  | Post_discover_research pystr int
  | Post_discover_videos pystr int
  | Post_discover_resources pystr int
  | Post_ask_question question_request
  | Delete_clear_session pystr
  | Get_session_info pystr

fun handle :: "env \<Rightarrow> request \<Rightarrow> state \<Rightarrow> result" where
  "handle e Get_root s = root s"
| "handle e Get_health s = health_check e s"
| "handle e (Post_upload_pdf file) s = upload_pdf e file s"
| "handle e (Post_generate_summary session_id) s = generate_summary e session_id s"
| "handle e (Post_generate_flashcards session_id n) s = generate_flashcards e session_id n s"
| "handle e (Post_generate_quiz session_id n) s = generate_quiz e session_id n s"
| "handle e (Post_discover_research session_id n) s = discover_research e session_id n s"
| "handle e (Post_discover_videos session_id n) s = discover_videos e session_id n s"
| "handle e (Post_discover_resources session_id n) s = discover_resources e session_id n s"
| "handle e (Post_ask_question request) s = ask_question e request s"
| "handle e (Delete_clear_session session_id) s = clear_session session_id s"
| "handle e (Get_session_info session_id) s = get_session_info session_id s"

text \<open>
  Requests served one after the other; each comes with the behaviour of the
  collaborators while it is served, which may differ from one request to the next.
\<close>

fun serve :: "(env \<times> request) list \<Rightarrow> state \<Rightarrow> state" where
  "serve [] s = s"
| "serve ((e, r) # rs) s = serve rs (snd (handle e r s))"

text \<open>The two routes that assign to \<^verbatim>\<open>study_sessions\<close>.\<close>

fun writes_sessions :: "request \<Rightarrow> bool" where
  "writes_sessions (Post_upload_pdf file) = True"
| "writes_sessions (Delete_clear_session session_id) = True"
| "writes_sessions r = False"

text \<open>The calls a request adds to the list of offloaded calls.\<close>

definition awaited :: "env \<Rightarrow> request \<Rightarrow> state \<Rightarrow> call list" where
  "awaited e r s = drop (length (offloaded s)) (offloaded (snd (handle e r s)))"

subsection \<open>The vocabulary of the specification\<close>

text \<open>
  The specification speaks of the text forwarded under a character budget, of the
  nearest bound of a closed range, of an operation that times out or fails, and of
  the arguments a collaborator receives. These are its notions, defined from its
  words; the theorems below compare the handlers with them.
\<close>

definition truncated :: "nat \<Rightarrow> pystr \<Rightarrow> pystr" where
  "truncated budget text = (if budget < length text then take budget text @ lit ''...'' else text)"

definition nearest_bound :: "int \<Rightarrow> int \<Rightarrow> int \<Rightarrow> int" where
  "nearest_bound lo hi n = (if n < lo then lo else if hi < n then hi else n)"

fun failed :: "'a outcome \<Rightarrow> bool" where
  "failed (Returned v) = False"
| "failed TimedOut = True"
| "failed (Raised err) = True"

text \<open>The text, and the number of items, that a call passes to its collaborator.\<close>

fun text_arg :: "call \<Rightarrow> pystr list" where
  "text_arg (Extract_text_with_ocr path) = []"
| "text_arg (Generate_summary t) = [t]"
| "text_arg (Generate_flashcards_structured t n) = [t]"
| "text_arg (Generate_quiz_structured t n) = [t]"
| "text_arg (Find_papers t n) = [t]"
| "text_arg (Extract_smart_keywords_and_topic t) = [t]"
| "text_arg (Find_videos keywords topic n) = []"
| "text_arg (Find_resources keywords topic n) = []"
| "text_arg (Chat_completion prompt max_tokens) = [prompt]"

fun count_arg :: "call \<Rightarrow> int list" where
  "count_arg (Generate_flashcards_structured t n) = [n]"
| "count_arg (Generate_quiz_structured t n) = [n]"
| "count_arg (Find_papers t n) = [n]"
| "count_arg (Find_videos keywords topic n) = [n]"
| "count_arg (Find_resources keywords topic n) = [n]"
| "count_arg c = []"

definition texts_passed :: "env \<Rightarrow> request \<Rightarrow> state \<Rightarrow> pystr list" where
  "texts_passed e r s = concat (map text_arg (awaited e r s))"

definition counts_passed :: "env \<Rightarrow> request \<Rightarrow> state \<Rightarrow> int list" where
  "counts_passed e r s = concat (map count_arg (awaited e r s))"

text \<open>The routes whose response carries a list and its count.\<close>

fun lists_items :: "request \<Rightarrow> bool" where
  "lists_items (Post_generate_flashcards session_id n) = True"
| "lists_items (Post_generate_quiz session_id n) = True"
| "lists_items (Post_discover_research session_id n) = True"
| "lists_items (Post_discover_videos session_id n) = True"
| "lists_items (Post_discover_resources session_id n) = True"
| "lists_items r = False"

fun count_matches :: "response \<Rightarrow> bool" where
  "count_matches (FlashcardResponse xs c st) = (c = int (length xs))"
| "count_matches (QuizResponse xs c st) = (c = int (length xs))"
| "count_matches (ResearchPapersResponse xs c st) = (c = int (length xs))"
| "count_matches (VideosResponse xs c st) = (c = int (length xs))"
| "count_matches (WebResourcesResponse xs c st) = (c = int (length xs))"
| "count_matches r = False"

text \<open>How many offloaded calls a route awaits at most.\<close>

fun max_awaits :: "request \<Rightarrow> nat" where
  "max_awaits Get_root = 0"
| "max_awaits Get_health = 0"
| "max_awaits (Delete_clear_session session_id) = 0"
| "max_awaits (Get_session_info session_id) = 0"
| "max_awaits (Post_discover_videos session_id n) = 2"
| "max_awaits (Post_discover_resources session_id n) = 2"
| "max_awaits r = 1"

subsection \<open>Sample inputs\<close>

definition ten_words :: pystr where
  "ten_words = lit ''one two three four five six seven eight nine ten''"

definition eleven_words :: pystr where
  "eleven_words = lit ''one two three four five six seven eight nine ten eleven''"

definition long_text :: pystr where
  "long_text = replicate 8001 97"

definition sample_result :: "pystr \<Rightarrow> int \<Rightarrow> extraction" where
  "sample_result t n =
     \<lparr>status = lit ''success'', message = lit ''Text extracted'', text' = t,
      word_count = n, page_count = 1, methods_used = [lit ''pdfplumber'']\<rparr>"

definition sample_file :: upload_file where
  "sample_file = \<lparr>filename = Some (lit ''Notes.PDF''), content = ''%PDF-1.4''\<rparr>"

definition sample_path :: pystr where
  "sample_path = lit ''/tmp/tmpab12.pdf''"

text \<open>
  Collaborators that all return, the extraction with the given result; no request
  writes the sessions during a wait.
\<close>

definition sample_env :: "extraction \<Rightarrow> env" where
  "sample_env result =
     \<lparr>named_temporary_file = (\<lambda>data. Inr sample_path),
      pdf_processor = (\<lambda>path. Returned result),
      summary_agent = (\<lambda>t. Returned (lit ''A short summary.'')),
      flashcard_agent = (\<lambda>t n. Returned []),
      quiz_agent = (\<lambda>t n. Returned []),
      find_papers = (\<lambda>t n. Returned []),
      extract_smart_keywords_and_topic = (\<lambda>t. Returned (lit ''logic'', [lit ''proof''], [lit ''proof'', lit ''term''])),
      find_videos = (\<lambda>keywords topic n. Returned []),
      find_resources = (\<lambda>keywords topic n. Returned []),
      chat_completion = (\<lambda>prompt max_tokens. Returned (lit ''An answer.'')),
      format_mb = (\<lambda>n. lit ''0.00''),
      str_http_exception = (\<lambda>code d. d),
      agents_initialized = True,
      openai_key_configured = True,
      sessions_after_wait = (\<lambda>sessions. sessions)\<rparr>"

definition no_sessions :: state where
  "no_sessions = \<lparr>study_sessions = [], offloaded = []\<rparr>"

text \<open>The state after the sample file was uploaded with the given extraction.\<close>

definition uploaded :: "extraction \<Rightarrow> state" where
  "uploaded result = snd (upload_pdf (sample_env result) sample_file no_sessions)"

definition sample_session :: "extraction \<Rightarrow> session" where
  "sample_session result =
     \<lparr>session_text = text' result,
      file_info = lit ''File: Notes.PDF (0.00 MB)'',
      processing_result = result,
      session_filename = lit ''Notes.PDF''\<rparr>"

definition ten_word_result :: extraction where
  "ten_word_result = sample_result ten_words 10"

definition eleven_word_result :: extraction where
  "eleven_word_result = sample_result eleven_words 11"

definition long_result :: extraction where
  "long_result = sample_result long_text 1200"

text \<open>
  Collaborators of which the keyword extraction returns and every generation and
  search call times out or raises.
\<close>

definition failing_env :: "extraction \<Rightarrow> env" where
  "failing_env result =
     (sample_env result)
       \<lparr>summary_agent := (\<lambda>t. TimedOut),
        flashcard_agent := (\<lambda>t n. TimedOut),
        quiz_agent := (\<lambda>t n. TimedOut),
        find_papers := (\<lambda>t n. TimedOut),
        find_videos := (\<lambda>keywords topic n. Raised (lit ''quota exceeded'')),
        find_resources := (\<lambda>keywords topic n. TimedOut)\<rparr>"

text \<open>What the extraction gives for a scanned page without text.\<close>

definition blank_result :: extraction where
  "blank_result = sample_result [] 0"

definition unreadable :: http_exception where
  "unreadable = HTTPException 422
     (lit ''Very little text could be extracted. PDF may be image-based, protected, or corrupted.'')"

section \<open>Properties\<close>

subsection \<open>The handlers in the vocabulary of the specification\<close>

lemma offload_sessions [simp]: "study_sessions (offload c s) = study_sessions s"
  by (simp add: offload_def)

lemma offload_offloaded [simp]: "offloaded (offload c s) = offloaded s @ [c]"
  by (simp add: offload_def)

text \<open>The inline truncation and clamping of the handlers are the specification's.\<close>

lemma cut_eq: "(if length t > b then take b t @ lit ''...'' else t) = truncated b t"
  by (simp add: truncated_def)

lemma cut_take_eq: "(if length t > b then take b t @ lit ''...'' else take b t) = truncated b t"
  by (simp add: truncated_def)

lemma clamp_cards:
  "(if n < 1 \<or> n > 20 then min (max n 1) 20 else n) = nearest_bound 1 20 (n::int)"
  by (simp add: nearest_bound_def)

lemma clamp_questions:
  "(if n < 1 \<or> n > 15 then min (max n 1) 15 else n) = nearest_bound 1 15 (n::int)"
  by (simp add: nearest_bound_def)

lemma cap_eq: "(if n > hi then hi else n) = min n (hi::int)"
  by (simp add: min_def)

lemma length_dots [simp]: "length (lit ''...'') = 3"
  by (simp add: lit_def)

lemma generate_summary_found:
  assumes "map_of (study_sessions s) session_id = Some sess"
  shows "generate_summary e session_id s =
     (case summary_agent e (truncated 8000 (session_text sess)) of
        Returned summary \<Rightarrow>
          if startswith summary cross_mark
          then Inl (HTTPException 500
                 (lit ''Summary generation failed: '' @ str_http_exception e 500 summary))
          else Inr (SummaryResponse summary success)
      | TimedOut \<Rightarrow>
          (case map_of (sessions_after_wait e (study_sessions s)) session_id of
             Some sess1 \<Rightarrow>
               Inr (SummaryResponse
                      (basic_summary (session_text sess1) (page_count (processing_result sess1)))
                      success)
           | None \<Rightarrow> Inl summary_timeout)
      | Raised err \<Rightarrow> Inl (HTTPException 500 (lit ''Summary generation failed: '' @ err)),
      offload (Generate_summary (truncated 8000 (session_text sess))) s)"
  unfolding generate_summary_def Let_def cut_eq
  using assms by (simp split: outcome.split option.split)

lemma generate_flashcards_found:
  assumes "map_of (study_sessions s) session_id = Some sess"
  shows "generate_flashcards e session_id n s =
     (case flashcard_agent e (truncated 6000 (session_text sess)) (nearest_bound 1 20 n) of
        Returned flashcards \<Rightarrow>
          if flashcards = [] then Inr (FlashcardResponse basic_flashcards_empty 2 success)
          else Inr (FlashcardResponse flashcards (int (length flashcards)) success)
      | TimedOut \<Rightarrow> Inr (FlashcardResponse basic_flashcards_timeout 1 success)
      | Raised err \<Rightarrow> Inl (HTTPException 500 (lit ''Flashcard generation failed: '' @ err)),
      offload (Generate_flashcards_structured (truncated 6000 (session_text sess))
                 (nearest_bound 1 20 n)) s)"
  unfolding generate_flashcards_def Let_def cut_eq clamp_cards
  using assms
  by (simp add: basic_flashcards_empty_def basic_flashcards_timeout_def split: outcome.split)

lemma generate_quiz_found:
  assumes "map_of (study_sessions s) session_id = Some sess"
  shows "generate_quiz e session_id n s =
     (case quiz_agent e (truncated 6000 (session_text sess)) (nearest_bound 1 15 n) of
        Returned quiz \<Rightarrow>
          if quiz = [] then Inr (QuizResponse basic_quiz_empty 2 success)
          else Inr (QuizResponse quiz (int (length quiz)) success)
      | TimedOut \<Rightarrow> Inr (QuizResponse basic_quiz_timeout 1 success)
      | Raised err \<Rightarrow> Inl (HTTPException 500 (lit ''Quiz generation failed: '' @ err)),
      offload (Generate_quiz_structured (truncated 6000 (session_text sess))
                 (nearest_bound 1 15 n)) s)"
  unfolding generate_quiz_def Let_def cut_eq clamp_questions
  using assms
  by (simp add: basic_quiz_empty_def basic_quiz_timeout_def split: outcome.split)

lemma discover_research_found:
  assumes "map_of (study_sessions s) session_id = Some sess"
  shows "discover_research e session_id n s =
     (case find_papers e (truncated 4000 (session_text sess)) (min n 15) of
        Returned papers \<Rightarrow> Inr (ResearchPapersResponse papers (int (length papers)) success)
      | TimedOut \<Rightarrow> Inr (ResearchPapersResponse [] 0 success)
      | Raised err \<Rightarrow> Inr (ResearchPapersResponse [] 0 success),
      offload (Find_papers (truncated 4000 (session_text sess)) (min n 15)) s)"
  unfolding discover_research_def Let_def cut_eq cap_eq
  using assms by (simp split: outcome.split)

lemma discover_videos_found:
  assumes "map_of (study_sessions s) session_id = Some sess"
  shows "discover_videos e session_id n s =
     (case extract_smart_keywords_and_topic e (truncated 3000 (session_text sess)) of
        Returned (topic, research_keywords, all_keywords) \<Rightarrow>
          (case find_videos e research_keywords topic (min n 12) of
             Returned videos \<Rightarrow> Inr (VideosResponse videos (int (length videos)) success)
           | TimedOut \<Rightarrow> Inr (VideosResponse [] 0 success)
           | Raised err \<Rightarrow> Inr (VideosResponse [] 0 success),
           offload (Find_videos research_keywords topic (min n 12))
             (offload (Extract_smart_keywords_and_topic (truncated 3000 (session_text sess))) s))
      | TimedOut \<Rightarrow>
          (Inr (VideosResponse [] 0 success),
           offload (Extract_smart_keywords_and_topic (truncated 3000 (session_text sess))) s)
      | Raised err \<Rightarrow>
          (Inr (VideosResponse [] 0 success),
           offload (Extract_smart_keywords_and_topic (truncated 3000 (session_text sess))) s))"
  unfolding discover_videos_def Let_def cut_eq cap_eq
  using assms by (simp split: outcome.split prod.split)

lemma discover_resources_found:
  assumes "map_of (study_sessions s) session_id = Some sess"
  shows "discover_resources e session_id n s =
     (case extract_smart_keywords_and_topic e (truncated 3000 (session_text sess)) of
        Returned (topic, research_keywords, all_keywords) \<Rightarrow>
          (case find_resources e research_keywords topic (min n 15) of
             Returned resources \<Rightarrow>
               Inr (WebResourcesResponse resources (int (length resources)) success)
           | TimedOut \<Rightarrow> Inr (WebResourcesResponse [] 0 success)
           | Raised err \<Rightarrow> Inr (WebResourcesResponse [] 0 success),
           offload (Find_resources research_keywords topic (min n 15))
             (offload (Extract_smart_keywords_and_topic (truncated 3000 (session_text sess))) s))
      | TimedOut \<Rightarrow>
          (Inr (WebResourcesResponse [] 0 success),
           offload (Extract_smart_keywords_and_topic (truncated 3000 (session_text sess))) s)
      | Raised err \<Rightarrow>
          (Inr (WebResourcesResponse [] 0 success),
           offload (Extract_smart_keywords_and_topic (truncated 3000 (session_text sess))) s))"
  unfolding discover_resources_def Let_def cut_eq cap_eq
  using assms by (simp split: outcome.split prod.split)

lemma ask_question_asked:
  assumes "py_strip (question request) \<noteq> []" and "py_strip (document_text request) \<noteq> []"
  shows "ask_question e request s =
     (case chat_completion e
             (prompt_head @ truncated 6000 (document_text request) @ prompt_question
              @ question request @ prompt_instructions) 800 of
        Returned response \<Rightarrow>
          if startswith response cross_mark
          then Inl (HTTPException 500
                 (lit ''Question answering failed: '' @ str_http_exception e 500 response))
          else Inr (AnswerResponse response success)
      | TimedOut \<Rightarrow> Inl (HTTPException 408 (lit ''Question answering timeout. Please try again.''))
      | Raised err \<Rightarrow> Inl (HTTPException 500 (lit ''Question answering failed: '' @ err)),
      offload (Chat_completion
                 (prompt_head @ truncated 6000 (document_text request) @ prompt_question
                  @ question request @ prompt_instructions) 800) s)"
  unfolding ask_question_def Let_def cut_take_eq
  using assms by (simp split: outcome.split)

lemma generation_missing:
  assumes "map_of (study_sessions s) session_id = None"
  shows "generate_summary e session_id s = (Inl no_document, s)"
    and "generate_flashcards e session_id n s = (Inl no_document, s)"
    and "generate_quiz e session_id n s = (Inl no_document, s)"
    and "discover_research e session_id n s = (Inl no_document, s)"
    and "discover_videos e session_id n s = (Inl no_document, s)"
    and "discover_resources e session_id n s = (Inl no_document, s)"
  using assms
  by (simp_all add: generate_summary_def generate_flashcards_def generate_quiz_def
      discover_research_def discover_videos_def discover_resources_def)

subsection \<open>The calls a request awaits\<close>

lemma awaited_summary:
  "map_of (study_sessions s) session_id = Some sess \<Longrightarrow>
   awaited e (Post_generate_summary session_id) s
     = [Generate_summary (truncated 8000 (session_text sess))]"
  by (simp add: awaited_def generate_summary_found)

lemma awaited_flashcards:
  "map_of (study_sessions s) session_id = Some sess \<Longrightarrow>
   awaited e (Post_generate_flashcards session_id n) s
     = [Generate_flashcards_structured (truncated 6000 (session_text sess)) (nearest_bound 1 20 n)]"
  by (simp add: awaited_def generate_flashcards_found)

lemma awaited_quiz:
  "map_of (study_sessions s) session_id = Some sess \<Longrightarrow>
   awaited e (Post_generate_quiz session_id n) s
     = [Generate_quiz_structured (truncated 6000 (session_text sess)) (nearest_bound 1 15 n)]"
  by (simp add: awaited_def generate_quiz_found)

lemma awaited_research:
  "map_of (study_sessions s) session_id = Some sess \<Longrightarrow>
   awaited e (Post_discover_research session_id n) s
     = [Find_papers (truncated 4000 (session_text sess)) (min n 15)]"
  by (simp add: awaited_def discover_research_found)

lemma awaited_videos:
  "map_of (study_sessions s) session_id = Some sess \<Longrightarrow>
   awaited e (Post_discover_videos session_id n) s
     = Extract_smart_keywords_and_topic (truncated 3000 (session_text sess))
       # (case extract_smart_keywords_and_topic e (truncated 3000 (session_text sess)) of
            Returned (topic, research_keywords, all_keywords) \<Rightarrow>
              [Find_videos research_keywords topic (min n 12)]
          | TimedOut \<Rightarrow> []
          | Raised err \<Rightarrow> [])"
  by (simp add: awaited_def discover_videos_found split: outcome.split prod.split)

lemma awaited_resources:
  "map_of (study_sessions s) session_id = Some sess \<Longrightarrow>
   awaited e (Post_discover_resources session_id n) s
     = Extract_smart_keywords_and_topic (truncated 3000 (session_text sess))
       # (case extract_smart_keywords_and_topic e (truncated 3000 (session_text sess)) of
            Returned (topic, research_keywords, all_keywords) \<Rightarrow>
              [Find_resources research_keywords topic (min n 15)]
          | TimedOut \<Rightarrow> []
          | Raised err \<Rightarrow> [])"
  by (simp add: awaited_def discover_resources_found split: outcome.split prod.split)

lemma awaited_ask:
  "py_strip (question request) \<noteq> [] \<Longrightarrow> py_strip (document_text request) \<noteq> [] \<Longrightarrow>
   awaited e (Post_ask_question request) s
     = [Chat_completion
          (prompt_head @ truncated 6000 (document_text request) @ prompt_question
           @ question request @ prompt_instructions) 800]"
  by (simp add: awaited_def ask_question_asked)

lemma awaited_ask_le: "length (awaited e (Post_ask_question request) s) \<le> 1"
proof (cases "py_strip (question request) \<noteq> [] \<and> py_strip (document_text request) \<noteq> []")
  case True
  then show ?thesis by (simp add: awaited_ask)
next
  case False
  then have "snd (ask_question e request s) = s"
    by (auto simp: ask_question_def)
  then show ?thesis by (simp add: awaited_def)
qed

lemma awaited_upload_le: "length (awaited e (Post_upload_pdf file) s) \<le> 1"
  by (simp add: awaited_def upload_pdf_def Let_def
      split: option.split sum.split outcome.split)

lemma awaited_missing:
  assumes "map_of (study_sessions s) session_id = None"
  shows "awaited e (Post_generate_summary session_id) s = []"
    and "awaited e (Post_generate_flashcards session_id n) s = []"
    and "awaited e (Post_generate_quiz session_id n) s = []"
    and "awaited e (Post_discover_research session_id n) s = []"
    and "awaited e (Post_discover_videos session_id n) s = []"
    and "awaited e (Post_discover_resources session_id n) s = []"
  by (simp_all add: awaited_def generation_missing [OF assms])

lemma awaited_le: "length (awaited e r s) \<le> max_awaits r"
proof (cases r)
  case Get_root
  then show ?thesis by (simp add: awaited_def root_def)
next
  case Get_health
  then show ?thesis by (simp add: awaited_def health_check_def)
next
  case (Post_upload_pdf f)
  then show ?thesis using awaited_upload_le [of e f s] by simp
next
  case (Post_generate_summary session_id)
  then show ?thesis
    by (cases "map_of (study_sessions s) session_id")
      (simp_all add: awaited_missing awaited_summary)
next
  case (Post_generate_flashcards session_id n)
  then show ?thesis
    by (cases "map_of (study_sessions s) session_id")
      (simp_all add: awaited_missing awaited_flashcards)
next
  case (Post_generate_quiz session_id n)
  then show ?thesis
    by (cases "map_of (study_sessions s) session_id")
      (simp_all add: awaited_missing awaited_quiz)
next
  case (Post_discover_research session_id n)
  then show ?thesis
    by (cases "map_of (study_sessions s) session_id")
      (simp_all add: awaited_missing awaited_research)
next
  case (Post_discover_videos session_id n)
  then show ?thesis
    by (cases "map_of (study_sessions s) session_id")
      (simp_all add: awaited_missing awaited_videos split: outcome.split prod.split)
next
  case (Post_discover_resources session_id n)
  then show ?thesis
    by (cases "map_of (study_sessions s) session_id")
      (simp_all add: awaited_missing awaited_resources split: outcome.split prod.split)
next
  case (Post_ask_question request)
  then show ?thesis using awaited_ask_le [of e request s] by simp
next
  case (Delete_clear_session session_id)
  then show ?thesis by (simp add: awaited_def clear_session_def)
next
  case (Get_session_info session_id)
  then show ?thesis by (simp add: awaited_def get_session_info_def split: option.split)
qed

subsection \<open>The session store is only read\<close>

lemma generation_keeps_sessions:
  "study_sessions (snd (generate_summary e session_id s)) = study_sessions s"
  "study_sessions (snd (generate_flashcards e session_id n s)) = study_sessions s"
  "study_sessions (snd (generate_quiz e session_id n s)) = study_sessions s"
  "study_sessions (snd (discover_research e session_id n s)) = study_sessions s"
  "study_sessions (snd (discover_videos e session_id n s)) = study_sessions s"
  "study_sessions (snd (discover_resources e session_id n s)) = study_sessions s"
  by (cases "map_of (study_sessions s) session_id";
      simp add: generation_missing generate_summary_found generate_flashcards_found
        generate_quiz_found discover_research_found discover_videos_found
        discover_resources_found split: outcome.split prod.split)+

lemma ask_question_keeps_sessions:
  "study_sessions (snd (ask_question e request s)) = study_sessions s"
  by (simp add: ask_question_def Let_def split: outcome.split)

lemma handle_keeps_sessions:
  assumes "\<not> writes_sessions r"
  shows "study_sessions (snd (handle e r s)) = study_sessions s"
  using assms
  by (cases r)
    (simp_all add: root_def health_check_def get_session_info_def generation_keeps_sessions
      ask_question_keeps_sessions split: option.split)

lemma serve_keeps_sessions:
  "list_all (\<lambda>(e, r). \<not> writes_sessions r) rs \<Longrightarrow>
   study_sessions (serve rs s) = study_sessions s"
proof (induction rs arbitrary: s)
  case Nil
  show ?case by simp
next
  case (Cons a rs)
  obtain e r where a: "a = (e, r)" by (cases a)
  from Cons.prems a have r: "\<not> writes_sessions r"
    and rest: "list_all (\<lambda>(e, r). \<not> writes_sessions r) rs"
    by simp_all
  have "study_sessions (serve (a # rs) s) = study_sessions (snd (handle e r s))"
    using a Cons.IH [OF rest] by simp
  also have "\<dots> = study_sessions s"
    by (rule handle_keeps_sessions [OF r])
  finally show ?case .
qed

subsection \<open>The sample upload\<close>

lemma uploaded_state:
  "10 \<le> n \<Longrightarrow> uploaded (sample_result t n) =
     \<lparr>study_sessions = [(lit ''default'', sample_session (sample_result t n))],
      offloaded = [Extract_text_with_ocr sample_path]\<rparr>"
  by (simp add: uploaded_def upload_pdf_def sample_env_def sample_file_def no_sessions_def
      sample_result_def sample_session_def offload_def endswith_def py_lower_def lit_def Let_def)

lemma uploaded_lookup:
  "10 \<le> n \<Longrightarrow> map_of (study_sessions (uploaded (sample_result t n))) (lit ''default'')
     = Some (sample_session (sample_result t n))"
  by (simp add: uploaded_state)

lemma sample_session_text [simp]: "session_text (sample_session (sample_result t n)) = t"
  by (simp add: sample_session_def sample_result_def)

lemma sample_session_pages [simp]:
  "page_count (processing_result (sample_session (sample_result t n))) = 1"
  by (simp add: sample_session_def sample_result_def)

lemma truncated_short: "length t \<le> b \<Longrightarrow> truncated b t = t"
  by (simp add: truncated_def)

lemma truncated_long:
  "b < length t \<Longrightarrow> truncated b t = take b t @ lit ''...'' \<and> length (truncated b t) = b + 3"
  by (simp add: truncated_def)

lemma length_ten_words [simp]: "length ten_words = 48"
  by (simp add: ten_words_def lit_def)

lemma length_eleven_words [simp]: "length eleven_words = 55"
  by (simp add: eleven_words_def lit_def)

lemma lookup_ten:
  "map_of (study_sessions (uploaded ten_word_result)) (lit ''default'')
     = Some (sample_session ten_word_result)"
  by (simp add: ten_word_result_def uploaded_lookup)

lemma lookup_eleven:
  "map_of (study_sessions (uploaded eleven_word_result)) (lit ''default'')
     = Some (sample_session eleven_word_result)"
  by (simp add: eleven_word_result_def uploaded_lookup)

lemma lookup_long:
  "map_of (study_sessions (uploaded long_result)) (lit ''default'')
     = Some (sample_session long_result)"
  by (simp add: long_result_def uploaded_lookup)

lemma ten_session [simp]:
  "session_text (sample_session ten_word_result) = ten_words"
  "page_count (processing_result (sample_session ten_word_result)) = 1"
  by (simp_all add: ten_word_result_def)

lemma eleven_session [simp]:
  "session_text (sample_session eleven_word_result) = eleven_words"
  "page_count (processing_result (sample_session eleven_word_result)) = 1"
  by (simp_all add: eleven_word_result_def)

lemma long_session [simp]:
  "session_text (sample_session long_result) = long_text"
  by (simp add: long_result_def)

subsection \<open>Claims on missing sessions, failures, counts and the session store\<close>

text \<open>
  C5. A generation or discovery request (summary, flashcards, quiz, research papers,
  videos, web resources) for a session identifier that is not in the session store
  is answered with the 404 error, and the state is returned as it was: nothing was
  added to the offloaded calls, so no collaborator was invoked.
\<close>

theorem missing_session_not_found:
  assumes "map_of (study_sessions s) session_id = None"
  shows "generate_summary e session_id s = (Inl no_document, s)
       \<and> generate_flashcards e session_id n s = (Inl no_document, s)
       \<and> generate_quiz e session_id n s = (Inl no_document, s)
       \<and> discover_research e session_id n s = (Inl no_document, s)
       \<and> discover_videos e session_id n s = (Inl no_document, s)
       \<and> discover_resources e session_id n s = (Inl no_document, s)
       \<and> status_code no_document = 404"
  by (simp add: generation_missing [OF assms] no_document_def)

theorem missing_session_not_found_witness:
  "generate_summary (sample_env ten_word_result) (lit ''default'') no_sessions
     = (Inl no_document, no_sessions)
   \<and> generate_flashcards (sample_env ten_word_result) (lit ''default'') 10 no_sessions
     = (Inl no_document, no_sessions)
   \<and> generate_quiz (sample_env ten_word_result) (lit ''default'') 10 no_sessions
     = (Inl no_document, no_sessions)
   \<and> discover_research (sample_env ten_word_result) (lit ''default'') 10 no_sessions
     = (Inl no_document, no_sessions)
   \<and> discover_videos (sample_env ten_word_result) (lit ''default'') 10 no_sessions
     = (Inl no_document, no_sessions)
   \<and> discover_resources (sample_env ten_word_result) (lit ''default'') 10 no_sessions
     = (Inl no_document, no_sessions)
   \<and> status_code no_document = 404"
proof -
  have "map_of (study_sessions no_sessions) (lit ''default'') = None"
    by (simp add: no_sessions_def)
  then show ?thesis
    by (rule missing_session_not_found)
qed

text \<open>
  C3. On an existing session, a discovery handler (research papers, videos, web
  resources) whose offloaded call times out or raises answers with a success
  carrying the empty list and the count 0; for videos and web resources this holds
  for the keyword extraction and for the search after it. On an existing session
  a discovery handler never answers with an error.
\<close>

theorem discovery_failures_give_empty_lists:
  assumes "map_of (study_sessions s) session_id = Some sess"
  shows "(failed (find_papers e (truncated 4000 (session_text sess)) (min n 15)) \<longrightarrow>
            fst (discover_research e session_id n s) = Inr (ResearchPapersResponse [] 0 success))
       \<and> (failed (extract_smart_keywords_and_topic e (truncated 3000 (session_text sess))) \<longrightarrow>
            fst (discover_videos e session_id n s) = Inr (VideosResponse [] 0 success)
            \<and> fst (discover_resources e session_id n s) = Inr (WebResourcesResponse [] 0 success))
       \<and> (extract_smart_keywords_and_topic e (truncated 3000 (session_text sess))
              = Returned (topic, keywords, all_keywords) \<longrightarrow>
            (failed (find_videos e keywords topic (min n 12)) \<longrightarrow>
               fst (discover_videos e session_id n s) = Inr (VideosResponse [] 0 success))
            \<and> (failed (find_resources e keywords topic (min n 15)) \<longrightarrow>
               fst (discover_resources e session_id n s) = Inr (WebResourcesResponse [] 0 success)))
       \<and> (\<forall>x. fst (discover_research e session_id n s) \<noteq> Inl x
               \<and> fst (discover_videos e session_id n s) \<noteq> Inl x
               \<and> fst (discover_resources e session_id n s) \<noteq> Inl x)"
proof -
  have research: "failed (find_papers e (truncated 4000 (session_text sess)) (min n 15)) \<longrightarrow>
      fst (discover_research e session_id n s) = Inr (ResearchPapersResponse [] 0 success)"
    by (cases "find_papers e (truncated 4000 (session_text sess)) (min n 15)")
      (simp_all add: discover_research_found [OF assms])
  have extraction: "failed (extract_smart_keywords_and_topic e (truncated 3000 (session_text sess))) \<longrightarrow>
      fst (discover_videos e session_id n s) = Inr (VideosResponse [] 0 success)
      \<and> fst (discover_resources e session_id n s) = Inr (WebResourcesResponse [] 0 success)"
    by (cases "extract_smart_keywords_and_topic e (truncated 3000 (session_text sess))")
      (simp_all add: discover_videos_found [OF assms] discover_resources_found [OF assms])
  have videos: "extract_smart_keywords_and_topic e (truncated 3000 (session_text sess))
        = Returned (topic, keywords, all_keywords) \<longrightarrow>
      failed (find_videos e keywords topic (min n 12)) \<longrightarrow>
      fst (discover_videos e session_id n s) = Inr (VideosResponse [] 0 success)"
    by (cases "find_videos e keywords topic (min n 12)")
      (simp_all add: discover_videos_found [OF assms])
  have resources: "extract_smart_keywords_and_topic e (truncated 3000 (session_text sess))
        = Returned (topic, keywords, all_keywords) \<longrightarrow>
      failed (find_resources e keywords topic (min n 15)) \<longrightarrow>
      fst (discover_resources e session_id n s) = Inr (WebResourcesResponse [] 0 success)"
    by (cases "find_resources e keywords topic (min n 15)")
      (simp_all add: discover_resources_found [OF assms])
  have no_error: "fst (discover_research e session_id n s) \<noteq> Inl x
      \<and> fst (discover_videos e session_id n s) \<noteq> Inl x
      \<and> fst (discover_resources e session_id n s) \<noteq> Inl x" for x
    by (simp add: discover_research_found [OF assms] discover_videos_found [OF assms]
        discover_resources_found [OF assms] split: outcome.split prod.split)
  from research extraction videos resources no_error show ?thesis by blast
qed

theorem discovery_failures_give_empty_lists_witness:
  "fst (discover_research (failing_env ten_word_result) (lit ''default'') 10
          (uploaded ten_word_result))
     = Inr (ResearchPapersResponse [] 0 success)
   \<and> fst (discover_videos (failing_env ten_word_result) (lit ''default'') 10
            (uploaded ten_word_result))
     = Inr (VideosResponse [] 0 success)
   \<and> fst (discover_resources (failing_env ten_word_result) (lit ''default'') 10
            (uploaded ten_word_result))
     = Inr (WebResourcesResponse [] 0 success)
   \<and> fst (discover_videos
            ((sample_env ten_word_result)\<lparr>extract_smart_keywords_and_topic := (\<lambda>t. TimedOut)\<rparr>)
            (lit ''default'') 10 (uploaded ten_word_result))
     = Inr (VideosResponse [] 0 success)"
proof -
  have returned: "extract_smart_keywords_and_topic (failing_env ten_word_result)
      (truncated 3000 (session_text (sample_session ten_word_result)))
      = Returned (lit ''logic'', [lit ''proof''], [lit ''proof'', lit ''term''])"
    by (simp add: failing_env_def sample_env_def)
  have papers: "failed (find_papers (failing_env ten_word_result)
      (truncated 4000 (session_text (sample_session ten_word_result))) (min 10 15))"
    by (simp add: failing_env_def)
  have videos: "failed (find_videos (failing_env ten_word_result) [lit ''proof''] (lit ''logic'')
      (min 10 12))"
    by (simp add: failing_env_def)
  have resources: "failed (find_resources (failing_env ten_word_result) [lit ''proof'']
      (lit ''logic'') (min 10 15))"
    by (simp add: failing_env_def)
  have extraction: "failed (extract_smart_keywords_and_topic
      ((sample_env ten_word_result)\<lparr>extract_smart_keywords_and_topic := (\<lambda>t. TimedOut)\<rparr>)
      (truncated 3000 (session_text (sample_session ten_word_result))))"
    by simp
  from discovery_failures_give_empty_lists [OF lookup_ten, of "failing_env ten_word_result" 10
      "lit ''logic''" "[lit ''proof'']" "[lit ''proof'', lit ''term'']"]
    discovery_failures_give_empty_lists [OF lookup_ten,
      of "(sample_env ten_word_result)\<lparr>extract_smart_keywords_and_topic := (\<lambda>t. TimedOut)\<rparr>" 10]
    returned papers videos resources extraction
  show ?thesis by blast
qed


text \<open>
  C7. Only the upload and clear-session routes write the session store: every other
  request (generation, discovery, question answering, session info, root, health)
  returns the store as it found it, and so does any sequence of such requests,
  whatever the collaborators do; in particular the text stored for a session stays
  what the upload stored. The handlers truncate a local copy of the text.
\<close>

theorem sessions_written_only_by_upload_and_clear:
  "(\<not> writes_sessions r \<longrightarrow> study_sessions (snd (handle e r s)) = study_sessions s)
   \<and> (list_all (\<lambda>(e, r). \<not> writes_sessions r) rs \<longrightarrow>
        study_sessions (serve rs s) = study_sessions s
        \<and> map_option session_text (map_of (study_sessions (serve rs s)) session_id)
            = map_option session_text (map_of (study_sessions s) session_id))"
  by (simp add: handle_keeps_sessions serve_keeps_sessions)

theorem sessions_written_only_by_upload_and_clear_witness:
  "study_sessions (snd (handle (sample_env long_result) (Post_generate_summary (lit ''default''))
       (uploaded long_result)))
     = study_sessions (uploaded long_result)
   \<and> study_sessions
        (serve [(sample_env long_result, Post_generate_summary (lit ''default'')),
                (failing_env long_result, Post_generate_flashcards (lit ''default'') 10),
                (sample_env long_result, Post_generate_quiz (lit ''default'') 8),
                (failing_env long_result, Post_discover_research (lit ''default'') 10),
                (sample_env long_result, Post_discover_videos (lit ''default'') 10),
                (sample_env long_result, Post_discover_resources (lit ''default'') 12),
                (sample_env long_result,
                   Post_ask_question \<lparr>question = lit ''Why?'', document_text = long_text\<rparr>),
                (sample_env long_result, Get_session_info (lit ''default'')),
                (sample_env long_result, Get_health),
                (sample_env long_result, Get_root)]
           (uploaded long_result))
     = study_sessions (uploaded long_result)
   \<and> map_option session_text
        (map_of (study_sessions
           (serve [(sample_env long_result, Post_generate_summary (lit ''default'')),
                   (failing_env long_result, Post_generate_flashcards (lit ''default'') 10),
                   (sample_env long_result, Post_generate_quiz (lit ''default'') 8),
                   (failing_env long_result, Post_discover_research (lit ''default'') 10),
                   (sample_env long_result, Post_discover_videos (lit ''default'') 10),
                   (sample_env long_result, Post_discover_resources (lit ''default'') 12),
                   (sample_env long_result,
                      Post_ask_question \<lparr>question = lit ''Why?'', document_text = long_text\<rparr>),
                   (sample_env long_result, Get_session_info (lit ''default'')),
                   (sample_env long_result, Get_health),
                   (sample_env long_result, Get_root)]
              (uploaded long_result))) (lit ''default''))
     = Some long_text"
  using sessions_written_only_by_upload_and_clear
    [of "Post_generate_summary (lit ''default'')" "sample_env long_result" "uploaded long_result"
      "[(sample_env long_result, Post_generate_summary (lit ''default'')),
        (failing_env long_result, Post_generate_flashcards (lit ''default'') 10),
        (sample_env long_result, Post_generate_quiz (lit ''default'') 8),
        (failing_env long_result, Post_discover_research (lit ''default'') 10),
        (sample_env long_result, Post_discover_videos (lit ''default'') 10),
        (sample_env long_result, Post_discover_resources (lit ''default'') 12),
        (sample_env long_result,
           Post_ask_question \<lparr>question = lit ''Why?'', document_text = long_text\<rparr>),
        (sample_env long_result, Get_session_info (lit ''default'')),
        (sample_env long_result, Get_health),
        (sample_env long_result, Get_root)]"
      "lit ''default''"]
  by (simp add: lookup_long del: serve.simps handle.simps)

lemma flashcards_count:
  "fst (generate_flashcards e session_id n s) = Inr resp \<Longrightarrow> count_matches resp"
  by (cases "map_of (study_sessions s) session_id")
    (auto simp: generation_missing generate_flashcards_found basic_flashcards_empty_def
      basic_flashcards_timeout_def split: outcome.splits if_splits)

lemma quiz_count:
  "fst (generate_quiz e session_id n s) = Inr resp \<Longrightarrow> count_matches resp"
  by (cases "map_of (study_sessions s) session_id")
    (auto simp: generation_missing generate_quiz_found basic_quiz_empty_def
      basic_quiz_timeout_def split: outcome.splits if_splits)

lemma research_count:
  "fst (discover_research e session_id n s) = Inr resp \<Longrightarrow> count_matches resp"
  by (cases "map_of (study_sessions s) session_id")
    (auto simp: generation_missing discover_research_found split: outcome.splits)

lemma videos_count:
  "fst (discover_videos e session_id n s) = Inr resp \<Longrightarrow> count_matches resp"
  by (cases "map_of (study_sessions s) session_id")
    (auto simp: generation_missing discover_videos_found split: outcome.splits prod.splits)

lemma resources_count:
  "fst (discover_resources e session_id n s) = Inr resp \<Longrightarrow> count_matches resp"
  by (cases "map_of (study_sessions s) session_id")
    (auto simp: generation_missing discover_resources_found split: outcome.splits prod.splits)

text \<open>
  C9. Every response of the flashcards, quiz, research-papers, videos and
  web-resources routes carries a count equal to the length of its list, whether
  the list is the collaborator's, a timeout fallback or an exception fallback.
\<close>

theorem count_is_length:
  assumes "lists_items r" and "fst (handle e r s) = Inr resp"
  shows "count_matches resp"
  using assms
  by (cases r)
    (simp_all add: flashcards_count quiz_count research_count videos_count resources_count)

theorem count_is_length_witness:
  "lists_items (Post_generate_flashcards (lit ''default'') 50)
   \<and> fst (handle (sample_env ten_word_result) (Post_generate_flashcards (lit ''default'') 50)
            (uploaded ten_word_result))
     = Inr (FlashcardResponse basic_flashcards_empty 2 success)
   \<and> count_matches (FlashcardResponse basic_flashcards_empty 2 success)"
proof -
  have answer: "fst (handle (sample_env ten_word_result)
      (Post_generate_flashcards (lit ''default'') 50) (uploaded ten_word_result))
      = Inr (FlashcardResponse basic_flashcards_empty 2 success)"
    by (simp add: generate_flashcards_found [OF lookup_ten] sample_env_def)
  have "lists_items (Post_generate_flashcards (lit ''default'') 50)"
    by simp
  from this answer count_is_length [OF this answer] show ?thesis
    by blast
qed

text \<open>
  C10. For flashcards and quiz, when the collaborator returns in time with an
  empty list, the handler answers with success and a fixed fallback of two items;
  so on an existing session every response of these two routes carries a
  non-empty list.
\<close>

theorem empty_result_replaced:
  assumes "map_of (study_sessions s) session_id = Some sess"
  shows "(flashcard_agent e (truncated 6000 (session_text sess)) (nearest_bound 1 20 n)
            = Returned [] \<longrightarrow>
          fst (generate_flashcards e session_id n s)
            = Inr (FlashcardResponse basic_flashcards_empty 2 success))
       \<and> (quiz_agent e (truncated 6000 (session_text sess)) (nearest_bound 1 15 n)
            = Returned [] \<longrightarrow>
          fst (generate_quiz e session_id n s) = Inr (QuizResponse basic_quiz_empty 2 success))
       \<and> (\<forall>resp. fst (generate_flashcards e session_id n s) = Inr resp \<longrightarrow>
            (\<exists>xs c. resp = FlashcardResponse xs c success \<and> xs \<noteq> []))
       \<and> (\<forall>resp. fst (generate_quiz e session_id n s) = Inr resp \<longrightarrow>
            (\<exists>xs c. resp = QuizResponse xs c success \<and> xs \<noteq> []))
       \<and> length basic_flashcards_empty = 2 \<and> length basic_quiz_empty = 2"
proof -
  have cards: "\<exists>xs c. resp = FlashcardResponse xs c success \<and> xs \<noteq> []"
    if "fst (generate_flashcards e session_id n s) = Inr resp" for resp
    using that
    by (auto simp: generate_flashcards_found [OF assms] basic_flashcards_empty_def
        basic_flashcards_timeout_def split: outcome.splits if_splits)
  have questions: "\<exists>xs c. resp = QuizResponse xs c success \<and> xs \<noteq> []"
    if "fst (generate_quiz e session_id n s) = Inr resp" for resp
    using that
    by (auto simp: generate_quiz_found [OF assms] basic_quiz_empty_def
        basic_quiz_timeout_def split: outcome.splits if_splits)
  have "length basic_flashcards_empty = 2" and "length basic_quiz_empty = 2"
    by (simp_all add: basic_flashcards_empty_def basic_quiz_empty_def)
  with cards questions show ?thesis
    by (simp add: generate_flashcards_found [OF assms] generate_quiz_found [OF assms])
qed

theorem empty_result_replaced_witness:
  "fst (generate_flashcards (sample_env ten_word_result) (lit ''default'') 10
          (uploaded ten_word_result))
     = Inr (FlashcardResponse basic_flashcards_empty 2 success)
   \<and> fst (generate_quiz (sample_env ten_word_result) (lit ''default'') 8
            (uploaded ten_word_result))
     = Inr (QuizResponse basic_quiz_empty 2 success)
   \<and> length basic_flashcards_empty = 2 \<and> length basic_quiz_empty = 2"
proof -
  have "flashcard_agent (sample_env ten_word_result)
      (truncated 6000 (session_text (sample_session ten_word_result))) (nearest_bound 1 20 10)
      = Returned []"
    and "quiz_agent (sample_env ten_word_result)
      (truncated 6000 (session_text (sample_session ten_word_result))) (nearest_bound 1 15 8)
      = Returned []"
    by (simp_all add: sample_env_def)
  with empty_result_replaced [OF lookup_ten, of "sample_env ten_word_result" 10]
    empty_result_replaced [OF lookup_ten, of "sample_env ten_word_result" 8]
  show ?thesis by blast
qed


subsection \<open>Facts about the samples\<close>

lemma dropWhile_rest: "(\<forall>x\<in>set (dropWhile P xs). P x) \<longleftrightarrow> (\<forall>x\<in>set xs. P x)"
  by (induction xs) auto

lemma py_strip_Nil: "py_strip t = [] \<longleftrightarrow> (\<forall>c\<in>set t. is_space c)"
  by (simp add: py_strip_def dropWhile_eq_Nil_conv dropWhile_rest)

lemma truncated_long_text: "b \<le> 8000 \<Longrightarrow> truncated b long_text = replicate b 97 @ lit ''...''"
  by (simp add: truncated_def long_text_def min_def)

lemma long_text_nonblank: "py_strip long_text \<noteq> []"
  by (simp add: py_strip_Nil long_text_def is_space_def)

lemma why_nonblank: "py_strip (lit ''Why?'') \<noteq> []"
  by (simp add: py_strip_Nil lit_def is_space_def)

lemma words_ten: "length (py_split ten_words) = 10"
  by (simp add: py_split_def ten_words_def lit_def is_space_def)

lemma words_eleven: "length (py_split eleven_words) = 11"
  by (simp add: py_split_def eleven_words_def lit_def is_space_def)

lemma str_int_10: "str_int 10 = [49, 48]"
  by (simp add: str_int_def digits.simps [of 10] digits.simps [of "Suc 0"])

lemma str_int_11: "str_int 11 = [49, 49]"
  by (simp add: str_int_def digits.simps [of 11] digits.simps [of "Suc 0"])

lemma summaries_differ: "basic_summary ten_words 1 \<noteq> basic_summary eleven_words 1"
  by (simp add: basic_summary_def words_ten words_eleven str_int_10 str_int_11)

subsection \<open>Claims on truncation, clamping, timeouts and the upload\<close>

text \<open>
  C4. Each handler with a character budget (summary 8000, flashcards and quiz 6000,
  research 4000, videos and web resources 3000, question answering 6000) passes to
  its collaborator the text cut to that budget: a text strictly longer than the
  budget is passed as its first budget-many characters followed by the marker of
  three dots, so with length budget plus three; a text of at most budget-many
  characters is passed unchanged. The question handler passes the cut text inside
  its prompt.
\<close>

theorem forwarded_text_is_truncated:
  assumes "map_of (study_sessions s) session_id = Some sess"
  shows "texts_passed e (Post_generate_summary session_id) s = [truncated 8000 (session_text sess)]
       \<and> texts_passed e (Post_generate_flashcards session_id n) s
           = [truncated 6000 (session_text sess)]
       \<and> texts_passed e (Post_generate_quiz session_id n) s = [truncated 6000 (session_text sess)]
       \<and> texts_passed e (Post_discover_research session_id n) s
           = [truncated 4000 (session_text sess)]
       \<and> texts_passed e (Post_discover_videos session_id n) s
           = [truncated 3000 (session_text sess)]
       \<and> texts_passed e (Post_discover_resources session_id n) s
           = [truncated 3000 (session_text sess)]
       \<and> (py_strip (question request) \<noteq> [] \<and> py_strip (document_text request) \<noteq> [] \<longrightarrow>
            texts_passed e (Post_ask_question request) s
              = [prompt_head @ truncated 6000 (document_text request) @ prompt_question
                 @ question request @ prompt_instructions])
       \<and> (budget < length t \<longrightarrow>
            truncated budget t = take budget t @ lit ''...''
            \<and> length (truncated budget t) = budget + length (lit ''...''))
       \<and> (length t \<le> budget \<longrightarrow> truncated budget t = t)"
proof -
  have "texts_passed e (Post_discover_videos session_id n) s = [truncated 3000 (session_text sess)]"
    and "texts_passed e (Post_discover_resources session_id n) s
      = [truncated 3000 (session_text sess)]"
    by (auto simp: texts_passed_def awaited_videos [OF assms] awaited_resources [OF assms]
        split: outcome.split prod.split)
  then show ?thesis
    by (simp add: texts_passed_def awaited_summary [OF assms] awaited_flashcards [OF assms]
        awaited_quiz [OF assms] awaited_research [OF assms] awaited_ask truncated_short
        truncated_long)
qed

theorem forwarded_text_is_truncated_witness:
  "texts_passed (sample_env long_result) (Post_generate_summary (lit ''default''))
       (uploaded long_result)
     = [replicate 8000 97 @ lit ''...'']
   \<and> texts_passed (sample_env long_result) (Post_generate_flashcards (lit ''default'') 10)
        (uploaded long_result)
     = [replicate 6000 97 @ lit ''...'']
   \<and> texts_passed (sample_env long_result) (Post_discover_research (lit ''default'') 10)
        (uploaded long_result)
     = [replicate 4000 97 @ lit ''...'']
   \<and> texts_passed (sample_env long_result) (Post_discover_videos (lit ''default'') 10)
        (uploaded long_result)
     = [replicate 3000 97 @ lit ''...'']
   \<and> texts_passed (sample_env long_result)
        (Post_ask_question \<lparr>question = lit ''Why?'', document_text = long_text\<rparr>)
        (uploaded long_result)
     = [prompt_head @ (replicate 6000 97 @ lit ''...'') @ prompt_question @ lit ''Why?''
        @ prompt_instructions]
   \<and> length (truncated 8000 long_text) = 8003
   \<and> texts_passed (sample_env ten_word_result) (Post_generate_summary (lit ''default''))
        (uploaded ten_word_result)
     = [ten_words]"
  using forwarded_text_is_truncated [OF lookup_long, of "sample_env long_result" 10
      "\<lparr>question = lit ''Why?'', document_text = long_text\<rparr>" 8000 long_text]
    forwarded_text_is_truncated [OF lookup_ten, of "sample_env ten_word_result" 10
      "\<lparr>question = lit ''Why?'', document_text = long_text\<rparr>" 8000 ten_words]
  by (simp add: truncated_long_text long_text_nonblank why_nonblank truncated_short)

lemma upload_error_codes:
  "fst (upload_pdf e file s) = Inl x \<Longrightarrow> status_code x \<in> {400, 408, 422, 500}"
  by (auto simp: upload_pdf_def Let_def split: option.splits sum.splits outcome.splits if_splits)

lemma unreadable_only_after_extraction:
  "fst (upload_pdf e file s) = Inl x \<Longrightarrow> status_code x = 422 \<Longrightarrow>
   \<exists>path result. pdf_processor e path = Returned result \<and> status result \<noteq> lit ''error''
     \<and> word_count result < 10"
  by (auto simp: upload_pdf_def Let_def split: option.splits sum.splits outcome.splits if_splits)

text \<open>
  C6. An upload that passes the checks on the file, whose extraction returns a
  result that is not an error, with a word count below 10, is answered with the
  422 error (the other failures of the upload are answered with 400, 408 or 500),
  and the session store is left as it was.
\<close>

theorem unreadable_upload_rejected:
  assumes "filename file = Some name" and "name \<noteq> []"
    and "endswith (py_lower name) (lit ''.pdf'')"
    and "0 < length (content file)" and "length (content file) \<le> 50 * 1024 * 1024"
    and "named_temporary_file e (content file) = Inr path"
    and "pdf_processor e path = Returned result"
    and "status result \<noteq> lit ''error''" and "word_count result < 10"
  shows "fst (upload_pdf e file s) = Inl unreadable
       \<and> status_code unreadable = 422
       \<and> study_sessions (snd (upload_pdf e file s)) = study_sessions s"
  using assms by (simp add: upload_pdf_def unreadable_def Let_def)

theorem unreadable_upload_rejected_witness:
  "fst (upload_pdf (sample_env blank_result) sample_file (uploaded ten_word_result))
     = Inl unreadable
   \<and> status_code unreadable = 422
   \<and> study_sessions (snd (upload_pdf (sample_env blank_result) sample_file
        (uploaded ten_word_result)))
     = study_sessions (uploaded ten_word_result)"
proof -
  have "filename sample_file = Some (lit ''Notes.PDF'')" and "lit ''Notes.PDF'' \<noteq> []"
    and "endswith (py_lower (lit ''Notes.PDF'')) (lit ''.pdf'')"
    and "0 < length (content sample_file)"
    and "length (content sample_file) \<le> 50 * 1024 * 1024"
    and "named_temporary_file (sample_env blank_result) (content sample_file) = Inr sample_path"
    and "pdf_processor (sample_env blank_result) sample_path = Returned blank_result"
    and "status blank_result \<noteq> lit ''error''" and "word_count blank_result < 10"
    by (simp_all add: sample_file_def sample_env_def blank_result_def sample_result_def
        endswith_def py_lower_def lit_def)
  then show ?thesis
    by (rule unreadable_upload_rejected)
qed


text \<open>
  C1, as amended. On an existing session, when the offloaded call times out:
  the flashcards handler answers with success and a fixed list of one card, the
  quiz handler with success and a fixed list of one question, both independent of
  the document and of the session. The summary handler reads the session again
  after the wait. When the session is there, it answers with success and a text of
  fixed wording around two numbers of the session as read then, the number of
  white-space separated words of its text and its page count, so the text depends
  on the document only through these two numbers and differs between documents.
  When the session is gone, cleared during the wait, it answers with the 408
  error.
\<close>

theorem timeout_fallbacks:
  assumes "map_of (study_sessions s) session_id = Some sess"
  shows "(flashcard_agent e (truncated 6000 (session_text sess)) (nearest_bound 1 20 n) = TimedOut \<longrightarrow>
            fst (generate_flashcards e session_id n s)
              = Inr (FlashcardResponse basic_flashcards_timeout 1 success))
       \<and> (quiz_agent e (truncated 6000 (session_text sess)) (nearest_bound 1 15 n) = TimedOut \<longrightarrow>
            fst (generate_quiz e session_id n s) = Inr (QuizResponse basic_quiz_timeout 1 success))
       \<and> (summary_agent e (truncated 8000 (session_text sess)) = TimedOut
            \<and> map_of (sessions_after_wait e (study_sessions s)) session_id = Some sess1 \<longrightarrow>
            fst (generate_summary e session_id s)
              = Inr (SummaryResponse
                       (basic_summary (session_text sess1) (page_count (processing_result sess1)))
                       success))
       \<and> (summary_agent e (truncated 8000 (session_text sess)) = TimedOut
            \<and> map_of (sessions_after_wait e (study_sessions s)) session_id = None \<longrightarrow>
            fst (generate_summary e session_id s) = Inl summary_timeout
            \<and> status_code summary_timeout = 408)
       \<and> (length (py_split t) = length (py_split t') \<longrightarrow> basic_summary t p = basic_summary t' p)"
  by (simp add: generate_flashcards_found [OF assms] generate_quiz_found [OF assms]
      generate_summary_found [OF assms] basic_summary_def summary_timeout_def)

theorem timeout_fallbacks_witness:
  "fst (generate_flashcards (failing_env ten_word_result) (lit ''default'') 10
          (uploaded ten_word_result))
     = Inr (FlashcardResponse basic_flashcards_timeout 1 success)
   \<and> fst (generate_quiz (failing_env ten_word_result) (lit ''default'') 8
            (uploaded ten_word_result))
     = Inr (QuizResponse basic_quiz_timeout 1 success)
   \<and> fst (generate_summary (failing_env ten_word_result) (lit ''default'')
            (uploaded ten_word_result))
     = Inr (SummaryResponse (basic_summary ten_words 1) success)
   \<and> fst (generate_summary
            ((failing_env ten_word_result)
               \<lparr>sessions_after_wait := (\<lambda>sessions. study_sessions (uploaded eleven_word_result))\<rparr>)
            (lit ''default'') (uploaded ten_word_result))
     = Inr (SummaryResponse (basic_summary eleven_words 1) success)
   \<and> fst (generate_summary
            ((failing_env ten_word_result)\<lparr>sessions_after_wait := AList.delete (lit ''default'')\<rparr>)
            (lit ''default'') (uploaded ten_word_result))
     = Inl summary_timeout
   \<and> status_code summary_timeout = 408
   \<and> basic_summary ten_words 1 = basic_summary (lit ''a b c d e f g h i j'') 1"
proof -
  have timeouts: "flashcard_agent (failing_env ten_word_result)
      (truncated 6000 (session_text (sample_session ten_word_result))) (nearest_bound 1 20 10)
      = TimedOut"
    "quiz_agent (failing_env ten_word_result)
      (truncated 6000 (session_text (sample_session ten_word_result))) (nearest_bound 1 15 8)
      = TimedOut"
    "summary_agent (failing_env ten_word_result)
      (truncated 8000 (session_text (sample_session ten_word_result))) = TimedOut"
    by (simp_all add: failing_env_def)
  have same: "length (py_split ten_words) = length (py_split (lit ''a b c d e f g h i j''))"
    by (simp add: words_ten) (simp add: py_split_def lit_def is_space_def)
  have kept: "map_of (sessions_after_wait (failing_env ten_word_result)
      (study_sessions (uploaded ten_word_result))) (lit ''default'')
      = Some (sample_session ten_word_result)"
    by (simp add: failing_env_def sample_env_def lookup_ten)
  have cleared: "map_of (AList.delete (lit ''default'') (study_sessions (uploaded ten_word_result)))
      (lit ''default'') = None"
    by (simp add: delete_conv)
  from timeout_fallbacks [OF lookup_ten, of "failing_env ten_word_result" 10
      "sample_session ten_word_result" ten_words "lit ''a b c d e f g h i j''" 1]
    timeout_fallbacks [OF lookup_ten, of "failing_env ten_word_result" 8
      "sample_session ten_word_result" ten_words "lit ''a b c d e f g h i j''" 1]
    timeout_fallbacks [OF lookup_ten,
      of "(failing_env ten_word_result)
            \<lparr>sessions_after_wait := (\<lambda>sessions. study_sessions (uploaded eleven_word_result))\<rparr>"
      10 "sample_session eleven_word_result" ten_words "lit ''a b c d e f g h i j''" 1]
    timeout_fallbacks [OF lookup_ten,
      of "(failing_env ten_word_result)\<lparr>sessions_after_wait := AList.delete (lit ''default'')\<rparr>"
      10 "sample_session ten_word_result" ten_words "lit ''a b c d e f g h i j''" 1]
    timeouts same kept cleared lookup_eleven
  show ?thesis by (simp add: failing_env_def)
qed

text \<open>
  The claim as first stated fails for the summary: two sessions, one with a text
  of ten words and one with a text of eleven, get different summaries when the
  summary call times out, with no request writing the sessions during the wait.
\<close>

theorem timeout_summary_counterexample:
  "fst (generate_summary (failing_env ten_word_result) (lit ''default'')
          (uploaded ten_word_result))
     = Inr (SummaryResponse (basic_summary ten_words 1) success)
   \<and> fst (generate_summary (failing_env eleven_word_result) (lit ''default'')
            (uploaded eleven_word_result))
     = Inr (SummaryResponse (basic_summary eleven_words 1) success)
   \<and> basic_summary ten_words 1 \<noteq> basic_summary eleven_words 1"
  by (simp add: generate_summary_found [OF lookup_ten] generate_summary_found [OF lookup_eleven]
      failing_env_def sample_env_def lookup_ten lookup_eleven summaries_differ)

text \<open>
  C2, as amended. Five routes take a number of items. Flashcards and quiz clamp it
  into the closed ranges 1 to 20 and 1 to 15: a value below 1 becomes 1, a value
  above the maximum becomes the maximum. The discovery routes only cap it from
  above, at 15 papers, 12 videos and 15 web resources: a value at or below the cap,
  zero and negative values included, is passed on as it is.
\<close>

theorem count_limits:
  assumes "map_of (study_sessions s) session_id = Some sess"
  shows "counts_passed e (Post_generate_flashcards session_id n) s = [nearest_bound 1 20 n]
       \<and> counts_passed e (Post_generate_quiz session_id n) s = [nearest_bound 1 15 n]
       \<and> counts_passed e (Post_discover_research session_id n) s = [min n 15]
       \<and> set (counts_passed e (Post_discover_videos session_id n) s) \<subseteq> {min n 12}
       \<and> set (counts_passed e (Post_discover_resources session_id n) s) \<subseteq> {min n 15}
       \<and> (\<not> failed (extract_smart_keywords_and_topic e (truncated 3000 (session_text sess))) \<longrightarrow>
            counts_passed e (Post_discover_videos session_id n) s = [min n 12]
            \<and> counts_passed e (Post_discover_resources session_id n) s = [min n 15])"
proof -
  have "set (counts_passed e (Post_discover_videos session_id n) s) \<subseteq> {min n 12}"
    and "set (counts_passed e (Post_discover_resources session_id n) s) \<subseteq> {min n 15}"
    by (auto simp: counts_passed_def awaited_videos [OF assms] awaited_resources [OF assms]
        split: outcome.splits prod.splits)
  moreover have "\<not> failed (extract_smart_keywords_and_topic e (truncated 3000 (session_text sess))) \<longrightarrow>
      counts_passed e (Post_discover_videos session_id n) s = [min n 12]
      \<and> counts_passed e (Post_discover_resources session_id n) s = [min n 15]"
    by (cases "extract_smart_keywords_and_topic e (truncated 3000 (session_text sess))")
      (auto simp: counts_passed_def awaited_videos [OF assms] awaited_resources [OF assms])
  ultimately show ?thesis
    by (simp add: counts_passed_def awaited_flashcards [OF assms] awaited_quiz [OF assms]
        awaited_research [OF assms])
qed

theorem count_limits_witness:
  "counts_passed (sample_env ten_word_result) (Post_generate_flashcards (lit ''default'') 50)
       (uploaded ten_word_result) = [20]
   \<and> counts_passed (sample_env ten_word_result) (Post_generate_flashcards (lit ''default'') 0)
        (uploaded ten_word_result) = [1]
   \<and> counts_passed (sample_env ten_word_result) (Post_generate_quiz (lit ''default'') 50)
        (uploaded ten_word_result) = [15]
   \<and> counts_passed (sample_env ten_word_result) (Post_discover_research (lit ''default'') 50)
        (uploaded ten_word_result) = [15]
   \<and> counts_passed (sample_env ten_word_result) (Post_discover_videos (lit ''default'') 50)
        (uploaded ten_word_result) = [12]
   \<and> counts_passed (sample_env ten_word_result) (Post_discover_resources (lit ''default'') 50)
        (uploaded ten_word_result) = [15]
   \<and> counts_passed (sample_env ten_word_result) (Post_discover_videos (lit ''default'') 0)
        (uploaded ten_word_result) = [0]"
proof -
  have "\<not> failed (extract_smart_keywords_and_topic (sample_env ten_word_result)
      (truncated 3000 (session_text (sample_session ten_word_result))))"
    by (simp add: sample_env_def)
  with count_limits [OF lookup_ten, of "sample_env ten_word_result" 50]
    count_limits [OF lookup_ten, of "sample_env ten_word_result" 0]
  show ?thesis by (simp add: nearest_bound_def)
qed

text \<open>
  The claim as first stated fails for the discovery routes: a request for \<open>- 3\<close>
  papers passes \<open>- 3\<close> to the collaborator, and no closed range has its lower bound
  as the count used for every request below it.
\<close>

theorem count_limits_counterexample:
  "counts_passed (sample_env ten_word_result) (Post_discover_research (lit ''default'') (- 3))
       (uploaded ten_word_result) = [- 3]
   \<and> \<not> (\<exists>lo hi. lo \<le> hi \<and>
          (\<forall>n. n < lo \<or> hi < n \<longrightarrow>
             counts_passed (sample_env ten_word_result)
               (Post_discover_research (lit ''default'') n) (uploaded ten_word_result)
             = [nearest_bound lo hi n]))"
proof -
  have passed: "counts_passed (sample_env ten_word_result)
      (Post_discover_research (lit ''default'') n) (uploaded ten_word_result) = [min n 15]" for n
    by (simp add: counts_passed_def awaited_research [OF lookup_ten])
  have "\<exists>n. (n < lo \<or> hi < n) \<and> min n 15 \<noteq> nearest_bound lo hi n" for lo hi :: int
    by (rule exI [of _ "lo - 1"]) (simp add: nearest_bound_def)
  then show ?thesis
    unfolding passed by simp blast
qed

text \<open>
  C8, as amended. A request awaits at most two offloaded collaborator calls. Root,
  health, clear-session and session-info await none; upload, summary, flashcards,
  quiz, research and question answering await at most one, and exactly one on an
  existing session; videos and web resources await the keyword extraction and, when
  it returns, the search as well: two calls, one after the other.
\<close>

theorem awaits_per_request:
  "length (awaited e r s) \<le> max_awaits r
   \<and> (map_of (study_sessions s) session_id = Some sess \<longrightarrow>
        length (awaited e (Post_generate_summary session_id) s) = 1
        \<and> length (awaited e (Post_generate_flashcards session_id n) s) = 1
        \<and> length (awaited e (Post_generate_quiz session_id n) s) = 1
        \<and> length (awaited e (Post_discover_research session_id n) s) = 1
        \<and> (if failed (extract_smart_keywords_and_topic e (truncated 3000 (session_text sess)))
            then length (awaited e (Post_discover_videos session_id n) s) = 1
               \<and> length (awaited e (Post_discover_resources session_id n) s) = 1
            else length (awaited e (Post_discover_videos session_id n) s) = 2
               \<and> length (awaited e (Post_discover_resources session_id n) s) = 2))"
proof -
  have "length (awaited e (Post_discover_videos session_id n) s)
      = (if failed (extract_smart_keywords_and_topic e (truncated 3000 (session_text sess)))
         then 1 else 2)"
    and "length (awaited e (Post_discover_resources session_id n) s)
      = (if failed (extract_smart_keywords_and_topic e (truncated 3000 (session_text sess)))
         then 1 else 2)"
    if "map_of (study_sessions s) session_id = Some sess"
    by (cases "extract_smart_keywords_and_topic e (truncated 3000 (session_text sess))";
        auto simp: awaited_videos [OF that] awaited_resources [OF that])+
  then show ?thesis
    by (simp add: awaited_le awaited_summary awaited_flashcards awaited_quiz awaited_research)
qed

theorem awaits_per_request_witness:
  "length (awaited (sample_env ten_word_result) (Post_discover_videos (lit ''default'') 10)
       (uploaded ten_word_result)) = 2
   \<and> length (awaited (sample_env ten_word_result) (Post_discover_resources (lit ''default'') 10)
        (uploaded ten_word_result)) = 2
   \<and> length (awaited (sample_env ten_word_result) (Post_generate_summary (lit ''default''))
        (uploaded ten_word_result)) = 1
   \<and> length (awaited (sample_env ten_word_result) Get_root (uploaded ten_word_result)) \<le> 0"
proof -
  have "\<not> failed (extract_smart_keywords_and_topic (sample_env ten_word_result)
      (truncated 3000 (session_text (sample_session ten_word_result))))"
    by (simp add: sample_env_def)
  with awaits_per_request [of "sample_env ten_word_result" Get_root "uploaded ten_word_result"
      "lit ''default''" "sample_session ten_word_result" 10]
    lookup_ten
  show ?thesis by simp
qed

text \<open>
  The claim as first stated fails: the videos handler awaits two offloaded calls on
  one request, and the root handler awaits none.
\<close>

theorem awaits_per_request_counterexample:
  "awaited (sample_env ten_word_result) (Post_discover_videos (lit ''default'') 10)
       (uploaded ten_word_result)
     = [Extract_smart_keywords_and_topic ten_words,
        Find_videos [lit ''proof''] (lit ''logic'') 10]
   \<and> awaited (sample_env ten_word_result) Get_root (uploaded ten_word_result) = []"
  by (simp add: awaited_videos [OF lookup_ten] sample_env_def truncated_short)
    (simp add: awaited_def root_def)


end
